theory Spec2Isabelle
  imports Complex_Main "HOL-Library.Sublist" "HOL-Library.Code_Target_Numeral"
begin

section \<open>The OpenAI adapter of ScandEval (src/scandeval/openai\_models.py)\<close>

text \<open>
  The module wraps a byte-pair encoding (tiktoken) as a tokenizer and the remote
  completion API (openai) as a model with a \<open>generate\<close> method. Both libraries are
  outside the repository: the encoding is a pair of functions held by the tokenizer, the
  remote API is a function from the number of earlier requests and the request to its
  outcome. Token IDs are Python integers, hence \<open>int\<close>. Python strings are lists of
  characters; a \<open>char\<close> is read as a code point below 256.
\<close>

subsection \<open>Errors\<close>

text \<open>
  The exceptions that the module can meet. \<open>RateLimitError\<close>, \<open>APIError\<close> and
  \<open>InvalidRequestError\<close> are the three classes imported from \<open>openai.error\<close>, siblings
  below \<open>OpenAIError\<close>; \<open>InvalidRequestError\<close> carries \<open>str(e)\<close>. \<open>OpenAIError\<close>
  stands for every other exception of the library (authentication, connection, ...).
  The others are Python's own: \<open>TypeError\<close> (iterating over an integer, arithmetic on a
  non-number), \<open>IndexError\<close> (\<open>choices[0]\<close> of no choices), \<open>AttributeError\<close>
  (reading an attribute that the object lacks), \<open>ValueError\<close> (a ragged nested list
  given to \<open>LongTensor\<close>), \<open>RuntimeError\<close> (\<open>pad_sequence\<close> of no sequences) and
  \<open>OverflowError\<close> (an integer too large to become a float).
\<close>

datatype error =
    RateLimitError
  | APIError
  | InvalidRequestError string
  | OpenAIError string
  | TypeError
  | IndexError
  | AttributeError
  | ValueError
  | RuntimeError
  | OverflowError

subsection \<open>Floating-point numbers\<close>

text \<open>
  \<open>Tensor(data)\<close> is a tensor of 32-bit floats and \<open>x - 1.0\<close> is a subtraction of
  64-bit floats, so both formats are needed. A float is modelled by the rational number it
  denotes; infinities and NaN do not occur in what follows.

  The number of binary digits of a natural number:
\<close>

fun bit_length :: "nat \<Rightarrow> nat" where
  "bit_length n = (if n = 0 then 0 else Suc (bit_length (n div 2)))"

declare bit_length.simps [simp del]

text \<open>
  Rounding an integer to \<open>p\<close> significant binary digits, to the nearest such number and
  to the one with an even last digit on a tie (the rounding of IEEE 754).
\<close>

definition round_bits :: "nat \<Rightarrow> int \<Rightarrow> int" where
  "round_bits p x =
     (let a = \<bar>x\<bar>; k = bit_length (nat a)
      in if k \<le> p then x
         else (let q = 2 ^ (k - p); m = a div q; r = a mod q;
                   m' = (if 2 * r > q \<or> (2 * r = q \<and> odd m) then m + 1 else m)
               in sgn x * (m' * q)))"

text \<open>
  What \<open>Tensor([...])\<close> followed by \<open>.long()\<close> makes of a Python integer: the integer
  becomes a 64-bit float, that one a 32-bit float (24 significant digits), and \<open>.long()\<close>
  gives its value back. From \<open>2 ^ 63\<close> on, the result of \<open>.long()\<close> depends on the
  platform (and Python refuses integers from about \<open>2 ^ 1024\<close> on); no property below
  speaks of the value there.
\<close>

definition float32 :: "int \<Rightarrow> int" where
  "float32 x = round_bits 24 (round_bits 53 x)"

text \<open>
  Rounding a rational number to a binary format with \<open>p\<close> significant digits and least
  exponent \<open>emin\<close> (53 and \<open>-1022\<close> for 64-bit floats), without the overflow to
  infinity.
\<close>

definition pow2 :: "int \<Rightarrow> rat" where
  "pow2 e = (if 0 \<le> e then 2 ^ nat e else 1 / 2 ^ nat (- e))"

text \<open>For \<open>a > 0\<close>, the \<open>e\<close> with \<open>2 ^ e \<le> a < 2 ^ (e + 1)\<close>.\<close>

definition exponent :: "rat \<Rightarrow> int" where
  "exponent a =
     (case quotient_of a of
        (n, d) \<Rightarrow>
          (let e0 = int (bit_length (nat n)) - int (bit_length (nat d))
           in if pow2 e0 \<le> a then e0 else e0 - 1))"

definition round_half_even :: "rat \<Rightarrow> int" where
  "round_half_even q =
     (let f = \<lfloor>q\<rfloor>; d = q - of_int f
      in if d > 1 / 2 \<or> (d = 1 / 2 \<and> odd f) then f + 1 else f)"

definition round_binary :: "nat \<Rightarrow> int \<Rightarrow> rat \<Rightarrow> rat" where
  "round_binary p emin r =
     (if r = 0 then 0
      else (let a = \<bar>r\<bar>; e = max (exponent a) emin; ulp = pow2 (e - int p + 1)
            in sgn r * (of_int (round_half_even (a / ulp)) * ulp)))"

definition binary64 :: "rat \<Rightarrow> rat" where
  "binary64 r = round_binary 53 (- 1022) r"

subsection \<open>Tensors and padding\<close>

text \<open>
  A tensor of integers with one or two dimensions; \<open>inputs.dim() == 2\<close> tells them
  apart. \<open>Tensor(ids)\<close> holds 32-bit floats: its entries are kept as the integers that
  \<open>.long()\<close> reads back.
\<close>

datatype tensor = Tensor1 "int list" | Tensor2 "int list list"

fun dim :: "tensor \<Rightarrow> nat" where
  "dim (Tensor1 _) = 1"
| "dim (Tensor2 _) = 2"

definition Tensor :: "int list \<Rightarrow> int list" where
  "Tensor data = map float32 data"

definition max_len :: "'a list list \<Rightarrow> nat" where
  "max_len seqs = foldr max (map length seqs) 0"

text \<open>
  \<open>torch.nn.utils.rnn.pad_sequence(sequences, batch_first=True, padding_value)\<close> on
  tensors of 32-bit floats, followed by \<open>.long()\<close>: every sequence is extended on the
  right to the length of the longest, with the padding value as a 32-bit float; an empty
  list of sequences is an error.
\<close>

definition padded_rows :: "int list list \<Rightarrow> int \<Rightarrow> int list list" where
  "padded_rows sequences padding_value =
     map (\<lambda>s. s @ replicate (max_len sequences - length s) padding_value) sequences"

definition pad_sequence :: "int list list \<Rightarrow> int \<Rightarrow> error + int list list" where
  "pad_sequence sequences padding_value =
     (if sequences = [] then Inl RuntimeError
      else Inr (padded_rows sequences (float32 padding_value)))"

text \<open>
  \<open>LongTensor(data)\<close> of a list of lists: the empty list gives the empty 1-D tensor,
  rows of one length give a 2-D tensor, anything else is refused.
\<close>

definition LongTensor :: "int list list \<Rightarrow> error + tensor" where
  "LongTensor data =
     (if data = [] then Inr (Tensor1 [])
      else if list_all (\<lambda>r. length r = length (hd data)) data then Inr (Tensor2 data)
      else Inl ValueError)"

subsection \<open>Configurations\<close>

record ModelConfig =
  model_id :: string

text \<open>The token IDs of the Hugging Face configuration; each may be \<open>None\<close>.\<close>

record PretrainedConfig =
  cfg_bos_token_id :: "int option"
  cfg_eos_token_id :: "int option"
  cfg_pad_token_id :: "int option"

text \<open>
  Python's \<open>x or d\<close> on an optional integer: \<open>None\<close> and \<open>0\<close> are both falsy and
  give \<open>d\<close>.
\<close>

fun py_or :: "int option \<Rightarrow> int \<Rightarrow> int" where
  "py_or None d = d"
| "py_or (Some x) d = (if x = 0 then d else x)"

subsection \<open>The tokenizer\<close>

text \<open>
  The tiktoken encoding: \<open>encode(text, allowed_special)\<close> and \<open>decode(tokens)\<close>.
\<close>

record Encoding =
  tk_encode :: "string \<Rightarrow> string set \<Rightarrow> int list"
  tk_decode :: "int list \<Rightarrow> string"

record OpenAITokenizer =
  tok_model_config :: ModelConfig
  tok_hf_model_config :: PretrainedConfig
  encoding :: Encoding
  bos_token_id :: int
  cls_token_id :: int
  eos_token_id :: int
  sep_token_id :: int
  pad_token_id :: int
  bos_token :: string
  cls_token :: string
  eos_token :: string
  sep_token :: string
  pad_token :: string

text \<open>\<open>OpenAITokenizer.__init__\<close>; \<open>encoding_for_model\<close> is tiktoken's lookup.\<close>

definition OpenAITokenizer_init ::
  "(string \<Rightarrow> Encoding) \<Rightarrow> ModelConfig \<Rightarrow> PretrainedConfig \<Rightarrow> OpenAITokenizer" where
  "OpenAITokenizer_init encoding_for_model model_config hf_model_config =
     (let enc = encoding_for_model (model_id model_config);
          bos = py_or (cfg_bos_token_id hf_model_config) (- 1);
          eos = py_or (cfg_eos_token_id hf_model_config) (- 1);
          pad = py_or (cfg_pad_token_id hf_model_config) (- 1)
      in \<lparr> tok_model_config = model_config,
           tok_hf_model_config = hf_model_config,
           encoding = enc,
           bos_token_id = bos,
           cls_token_id = bos,
           eos_token_id = eos,
           sep_token_id = eos,
           pad_token_id = pad,
           bos_token = tk_decode enc [bos],
           cls_token = tk_decode enc [bos],
           eos_token = tk_decode enc [eos],
           sep_token = tk_decode enc [eos],
           pad_token = ''<pad>'' \<rparr>)"

text \<open>The argument of \<open>__call__\<close>: one string or a list of strings.\<close>

datatype text_arg = Str string | StrList "string list"

definition allowed_special :: "OpenAITokenizer \<Rightarrow> string set" where
  "allowed_special tok =
     {bos_token tok, eos_token tok, cls_token tok, sep_token tok, pad_token tok}"

text \<open>\<open>OpenAITokenizer.__call__\<close>, returning the \<open>input_ids\<close> of the batch.\<close>

definition OpenAITokenizer_call :: "OpenAITokenizer \<Rightarrow> text_arg \<Rightarrow> error + int list list" where
  "OpenAITokenizer_call tok text =
     (let text_list = (case text of Str s \<Rightarrow> [s] | StrList l \<Rightarrow> l);
          input_ids =
            map (\<lambda>t. Tensor (tk_encode (encoding tok) t (allowed_special tok))) text_list
      in pad_sequence input_ids (pad_token_id tok))"

text \<open>\<open>OpenAITokenizer.decode\<close>.\<close>

definition OpenAITokenizer_decode :: "OpenAITokenizer \<Rightarrow> int list \<Rightarrow> string" where
  "OpenAITokenizer_decode tok token_ids =
     tk_decode (encoding tok) (filter (\<lambda>token_id. token_id \<noteq> pad_token_id tok) token_ids)"

subsection \<open>Strings\<close>

text \<open>
  Python's \<open>str.strip()\<close> removes the white space at both ends; below 256 the white
  space characters are 9 to 13, 28 to 32, 133 and 160.
\<close>

definition isspace :: "char \<Rightarrow> bool" where
  "isspace c =
     (let k = (of_char c :: nat)
      in (9 \<le> k \<and> k \<le> 13) \<or> (28 \<le> k \<and> k \<le> 32) \<or> k = 133 \<or> k = 160)"

definition strip :: "string \<Rightarrow> string" where
  "strip s = rev (dropWhile isspace (rev (dropWhile isspace s)))"

text \<open>\<open>sub in s\<close> on strings.\<close>

fun starts_with :: "string \<Rightarrow> string \<Rightarrow> bool" where
  "starts_with s [] = True"
| "starts_with [] (c # sub) = False"
| "starts_with (d # s) (c # sub) = (d = c \<and> starts_with s sub)"

fun str_in :: "string \<Rightarrow> string \<Rightarrow> bool" where
  "str_in sub [] = (sub = [])"
| "str_in sub (c # s) = (starts_with (c # s) sub \<or> str_in sub s)"

subsection \<open>The generation configuration\<close>

text \<open>
  The values of attributes and keyword arguments. \<open>FloatV r\<close> is the 64-bit float of
  value \<open>r\<close>.
\<close>

datatype pyval = IntV int | FloatV rat | BoolV bool | StrV string | NoneV

text \<open>
  \<open>GenerationConfig\<close> is a class of the transformers library: an object is the
  dictionary of its attributes, \<open>setattr\<close> stores one, reading a missing one raises.
  \<open>**generation_kwargs\<close> is a dictionary in insertion order.
\<close>

type_synonym GenerationConfig = "string \<rightharpoonup> pyval"

type_synonym kwargs = "(string \<times> pyval) list"

definition setattr :: "GenerationConfig \<Rightarrow> string \<Rightarrow> pyval \<Rightarrow> GenerationConfig" where
  "setattr obj key val = obj(key \<mapsto> val)"

definition getattr :: "GenerationConfig \<Rightarrow> string \<Rightarrow> error + pyval" where
  "getattr obj key = (case obj key of None \<Rightarrow> Inl AttributeError | Some v \<Rightarrow> Inr v)"

text \<open>
  \<open>x - 1.0\<close>: an integer (or a truth value, which is an integer) is first made a
  64-bit float, which fails when it is too large; the difference is rounded to a 64-bit
  float.
\<close>

fun minus_one :: "pyval \<Rightarrow> error + pyval" where
  "minus_one (IntV i) =
     (if \<bar>binary64 (of_int i)\<bar> \<ge> 2 ^ 1024 then Inl OverflowError
      else Inr (FloatV (binary64 (binary64 (of_int i) - 1))))"
| "minus_one (FloatV r) = Inr (FloatV (binary64 (r - 1)))"
| "minus_one (BoolV b) = Inr (FloatV ((if b then 1 else 0) - 1))"
| "minus_one (StrV _) = Inl TypeError"
| "minus_one NoneV = Inl TypeError"

text \<open>
  Lines 173 to 177 of \<open>generate\<close>. The first component is the configuration that the
  call goes on with, the second the caller's object after these lines (\<open>None\<close> when the
  caller passed none). \<open>GenerationConfig_init\<close> is the constructor
  \<open>GenerationConfig(**kwargs)\<close>.
\<close>

definition resolve_generation_config ::
  "(kwargs \<Rightarrow> GenerationConfig) \<Rightarrow> GenerationConfig option \<Rightarrow> kwargs
     \<Rightarrow> GenerationConfig \<times> GenerationConfig option" where
  "resolve_generation_config GenerationConfig_init generation_config generation_kwargs =
     (case generation_config of
        None \<Rightarrow> (GenerationConfig_init generation_kwargs, None)
      | Some obj \<Rightarrow>
          (let obj' = fold (\<lambda>(key, val) ob. setattr ob key val) generation_kwargs obj
           in (obj', Some obj')))"

subsection \<open>The remote API\<close>

text \<open>
  \<open>inputs_list\<close> after the padding is removed: a flat list of token IDs for a 1-D
  input, a list of such lists for a 2-D input.
\<close>

datatype inputs_list = Flat "int list" | Nested "int list list"

datatype prompt = Text string | TokenPrompt inputs_list

record sampling =
  arg_temperature :: pyval
  arg_top_p :: pyval
  arg_n :: pyval
  arg_frequency_penalty :: pyval
  arg_stop :: "string list"

text \<open>
  \<open>openai.Completion.create(model, prompt, max_tokens, ...)\<close> and
  \<open>openai.ChatCompletion.create(model, messages, max_tokens, ...)\<close>; a message is its
  role and its content. The probe passes no sampling arguments.
\<close>

datatype request =
    Completion string prompt pyval "sampling option"
  | ChatCompletion string "(string \<times> string) list" pyval sampling

text \<open>
  The remote side: given the number of requests made before and the request, an
  exception or the texts of the returned choices, in order.
\<close>

type_synonym remote_api = "nat \<Rightarrow> request \<Rightarrow> error + string list"

text \<open>What the call does to the outside: the requests issued and the seconds slept.\<close>

record world =
  requests :: "request list"
  slept :: "nat list"

definition create :: "remote_api \<Rightarrow> request \<Rightarrow> world \<Rightarrow> (error + string list) \<times> world" where
  "create api rq w = (api (length (requests w)) rq, w\<lparr>requests := requests w @ [rq]\<rparr>)"

definition sleep :: "nat \<Rightarrow> world \<Rightarrow> world" where
  "sleep secs w = w\<lparr>slept := slept w @ [secs]\<rparr>"

subsection \<open>The model\<close>

text \<open>
  The dataset and benchmark configurations and the device are stored and never read by
  \<open>generate\<close>; they are left out.
\<close>

record OpenAIModel =
  model_config :: ModelConfig
  config :: PretrainedConfig
  tokenizer :: OpenAITokenizer

definition OpenAIModel_init ::
  "ModelConfig \<Rightarrow> PretrainedConfig \<Rightarrow> OpenAITokenizer \<Rightarrow> OpenAIModel" where
  "OpenAIModel_init mc hf_model_config tok =
     \<lparr> model_config = mc, config = hf_model_config, tokenizer = tok \<rparr>"

text \<open>
  Lines 181 to 196: the filter \<open>token_id != self.config.pad_token_id\<close>. An integer
  differs from \<open>None\<close>.
\<close>

definition remove_padding :: "int option \<Rightarrow> int list \<Rightarrow> int list" where
  "remove_padding pad token_ids = filter (\<lambda>token_id. Some token_id \<noteq> pad) token_ids"

definition make_inputs_list :: "OpenAIModel \<Rightarrow> tensor \<Rightarrow> inputs_list" where
  "make_inputs_list mdl inputs =
     (case inputs of
        Tensor2 rows \<Rightarrow> Nested (map (remove_padding (cfg_pad_token_id (config mdl))) rows)
      | Tensor1 ids \<Rightarrow> Flat (remove_padding (cfg_pad_token_id (config mdl)) ids))"

text \<open>Lines 198 to 210: the probe that tells a chat model from a completion model.\<close>

definition probe_request :: "OpenAIModel \<Rightarrow> request" where
  "probe_request mdl = Completion (model_id (model_config mdl)) (Text ''Test'') (IntV 10) None"

definition check_chat_model :: "remote_api \<Rightarrow> OpenAIModel \<Rightarrow> world \<Rightarrow> (error + bool) \<times> world" where
  "check_chat_model api mdl w =
     (case create api (probe_request mdl) w of
        (Inr _, w') \<Rightarrow> (Inr False, w')
      | (Inl e, w') \<Rightarrow>
          (case e of
             InvalidRequestError msg \<Rightarrow>
               (if str_in ''This is a chat model'' msg then (Inr True, w') else (Inl e, w'))
           | _ \<Rightarrow> (Inl e, w')))"

text \<open>
  The keyword arguments read from the generation configuration, in the order in which
  Python evaluates them, and the stop sequences.
\<close>

definition sampling_args :: "OpenAIModel \<Rightarrow> GenerationConfig \<Rightarrow> error + pyval \<times> sampling" where
  "sampling_args mdl gc =
     (case getattr gc ''max_length'' of Inl e \<Rightarrow> Inl e | Inr max_length \<Rightarrow>
     (case getattr gc ''temperature'' of Inl e \<Rightarrow> Inl e | Inr temperature \<Rightarrow>
     (case getattr gc ''top_p'' of Inl e \<Rightarrow> Inl e | Inr top_p \<Rightarrow>
     (case getattr gc ''num_return_sequences'' of Inl e \<Rightarrow> Inl e | Inr num \<Rightarrow>
     (case getattr gc ''repetition_penalty'' of Inl e \<Rightarrow> Inl e | Inr rp \<Rightarrow>
     (case minus_one rp of Inl e \<Rightarrow> Inl e | Inr fp \<Rightarrow>
        Inr (max_length,
             \<lparr> arg_temperature = temperature, arg_top_p = top_p, arg_n = num,
               arg_frequency_penalty = fp,
               arg_stop = [[CHR 0x0A, CHR 0x0A], eos_token (tokenizer mdl),
                           pad_token (tokenizer mdl)] \<rparr>)))))))"

text \<open>\<open>self.tokenizer(text.strip())["input_ids"][0].tolist()\<close>\<close>

definition retokenize :: "OpenAITokenizer \<Rightarrow> string \<Rightarrow> error + int list" where
  "retokenize tok text =
     (case OpenAITokenizer_call tok (Str (strip text)) of
        Inl e \<Rightarrow> Inl e
      | Inr rows \<Rightarrow> (case rows of [] \<Rightarrow> Inl IndexError | r # _ \<Rightarrow> Inr r))"

text \<open>The list comprehension over \<open>generation_output.choices\<close> (lines 230 to 233).\<close>

fun retokenize_choices :: "OpenAITokenizer \<Rightarrow> string list \<Rightarrow> error + int list list" where
  "retokenize_choices tok [] = Inr []"
| "retokenize_choices tok (c # cs) =
     (case retokenize tok c of
        Inl e \<Rightarrow> Inl e
      | Inr ids \<Rightarrow>
          (case retokenize_choices tok cs of Inl e \<Rightarrow> Inl e | Inr rest \<Rightarrow> Inr (ids # rest)))"

text \<open>
  What the \<open>for\<close> loop of the chat branch iterates over: the elements of
  \<open>inputs_list\<close>, which are integers when the list is flat.
\<close>

datatype item = TokenId int | TokenIds "int list"

fun items :: "inputs_list \<Rightarrow> item list" where
  "items (Flat ids) = map TokenId ids"
| "items (Nested rows) = map TokenIds rows"

text \<open>
  One round of the chat loop (lines 238 to 262). \<open>self.tokenizer.decode(input_ids)\<close>
  iterates over its argument, which fails on an integer.
\<close>

definition chat_completion ::
  "remote_api \<Rightarrow> OpenAIModel \<Rightarrow> GenerationConfig \<Rightarrow> item \<Rightarrow> world \<Rightarrow> (error + int list) \<times> world" where
  "chat_completion api mdl gc it w =
     (case it of
        TokenId _ \<Rightarrow> (Inl TypeError, w)
      | TokenIds input_ids \<Rightarrow>
          (let content = OpenAITokenizer_decode (tokenizer mdl) input_ids
           in case sampling_args mdl gc of
                Inl e \<Rightarrow> (Inl e, w)
              | Inr (max_tokens, sp) \<Rightarrow>
                  (case create api
                          (ChatCompletion (model_id (model_config mdl))
                             [(''user'', content)] max_tokens sp) w of
                     (Inl e, w') \<Rightarrow> (Inl e, w')
                   | (Inr choices, w') \<Rightarrow>
                       (case choices of
                          [] \<Rightarrow> (Inl IndexError, w')
                        | c # _ \<Rightarrow> (retokenize (tokenizer mdl) c, w')))))"

fun chat_loop ::
  "remote_api \<Rightarrow> OpenAIModel \<Rightarrow> GenerationConfig \<Rightarrow> item list \<Rightarrow> int list list \<Rightarrow> world
     \<Rightarrow> (error + int list list) \<times> world" where
  "chat_loop api mdl gc [] completion_ids_list w = (Inr completion_ids_list, w)"
| "chat_loop api mdl gc (it # its) completion_ids_list w =
     (case chat_completion api mdl gc it w of
        (Inl e, w') \<Rightarrow> (Inl e, w')
      | (Inr completion_ids, w') \<Rightarrow>
          chat_loop api mdl gc its (completion_ids_list @ [completion_ids]) w')"

text \<open>
  The body of the \<open>try\<close> (lines 214 to 263). It ends in one of three ways: an exception,
  the \<open>break\<close> at the end of the chat branch, or the end of the completion branch,
  which has no \<open>break\<close>.
\<close>

datatype attempt = Raises error | Breaks "int list list" | FallsThrough "int list list"

definition try_body ::
  "remote_api \<Rightarrow> OpenAIModel \<Rightarrow> GenerationConfig \<Rightarrow> bool \<Rightarrow> inputs_list \<Rightarrow> world
     \<Rightarrow> attempt \<times> world" where
  "try_body api mdl gc is_chat_model inps w =
     (if \<not> is_chat_model then
        (case sampling_args mdl gc of
           Inl e \<Rightarrow> (Raises e, w)
         | Inr (max_tokens, sp) \<Rightarrow>
             (case create api
                     (Completion (model_id (model_config mdl)) (TokenPrompt inps)
                        max_tokens (Some sp)) w of
                (Inl e, w') \<Rightarrow> (Raises e, w')
              | (Inr choices, w') \<Rightarrow>
                  (case retokenize_choices (tokenizer mdl) choices of
                     Inl e \<Rightarrow> (Raises e, w')
                   | Inr completion_ids_list \<Rightarrow> (FallsThrough completion_ids_list, w'))))
      else
        (case chat_loop api mdl gc (items inps) [] w of
           (Inl e, w') \<Rightarrow> (Raises e, w')
         | (Inr completion_ids_list, w') \<Rightarrow> (Breaks completion_ids_list, w')))"

text \<open>
  The result of a computation that may not end: \<open>Diverged\<close> says that the loop was still
  running when the fuel ran out.
\<close>

datatype 'a outcome = Returned 'a | Raised error | Diverged

text \<open>
  \<open>while True\<close> (lines 212 to 276); each round takes one unit of fuel. The two
  \<open>except\<close> clauses sleep ten seconds and go round again; every other exception
  leaves the loop.
\<close>

fun while_true ::
  "nat \<Rightarrow> remote_api \<Rightarrow> OpenAIModel \<Rightarrow> GenerationConfig \<Rightarrow> bool \<Rightarrow> inputs_list \<Rightarrow> world
     \<Rightarrow> int list list outcome \<times> world" where
  "while_true 0 api mdl gc is_chat_model inps w = (Diverged, w)"
| "while_true (Suc fuel) api mdl gc is_chat_model inps w =
     (case try_body api mdl gc is_chat_model inps w of
        (Breaks completion_ids_list, w') \<Rightarrow> (Returned completion_ids_list, w')
      | (FallsThrough completion_ids_list, w') \<Rightarrow>
          while_true fuel api mdl gc is_chat_model inps w'
      | (Raises e, w') \<Rightarrow>
          (if e = RateLimitError then while_true fuel api mdl gc is_chat_model inps (sleep 10 w')
           else if e = APIError then while_true fuel api mdl gc is_chat_model inps (sleep 10 w')
           else (Raised e, w')))"

text \<open>Lines 278 to 286: the tensor that is returned.\<close>

definition output_tensor :: "OpenAIModel \<Rightarrow> bool \<Rightarrow> int list list \<Rightarrow> error + tensor" where
  "output_tensor mdl multiple_inputs completion_ids_list =
     (if multiple_inputs then
        (case pad_sequence (map Tensor completion_ids_list) (pad_token_id (tokenizer mdl)) of
           Inl e \<Rightarrow> Inl e
         | Inr padded \<Rightarrow> Inr (Tensor2 padded))
      else LongTensor completion_ids_list)"

text \<open>What follows the loop: the exit of \<open>generate\<close> with the tensor or the exception.\<close>

definition after_loop ::
  "OpenAIModel \<Rightarrow> bool \<Rightarrow> GenerationConfig option \<Rightarrow> int list list outcome \<times> world
     \<Rightarrow> tensor outcome \<times> GenerationConfig option \<times> world" where
  "after_loop mdl multiple_inputs caller_config r =
     (case r of
        (Diverged, w2) \<Rightarrow> (Diverged, caller_config, w2)
      | (Raised e, w2) \<Rightarrow> (Raised e, caller_config, w2)
      | (Returned completion_ids_list, w2) \<Rightarrow>
          (case output_tensor mdl multiple_inputs completion_ids_list of
             Inl e \<Rightarrow> (Raised e, caller_config, w2)
           | Inr t \<Rightarrow> (Returned t, caller_config, w2)))"

text \<open>
  \<open>OpenAIModel.generate\<close>. The result is the outcome of the call, the caller's
  generation configuration object after the call, and the world after the call.
\<close>

definition generate ::
  "nat \<Rightarrow> remote_api \<Rightarrow> (kwargs \<Rightarrow> GenerationConfig) \<Rightarrow> OpenAIModel \<Rightarrow> tensor
     \<Rightarrow> GenerationConfig option \<Rightarrow> kwargs \<Rightarrow> world
     \<Rightarrow> tensor outcome \<times> GenerationConfig option \<times> world" where
  "generate fuel api GenerationConfig_init mdl inputs generation_config generation_kwargs w =
     (case resolve_generation_config GenerationConfig_init generation_config generation_kwargs of
        (gc, caller_config) \<Rightarrow>
          (let multiple_inputs = (dim inputs = 2);
               inps = make_inputs_list mdl inputs
           in case check_chat_model api mdl w of
                (Inl e, w1) \<Rightarrow> (Raised e, caller_config, w1)
              | (Inr is_chat_model, w1) \<Rightarrow>
                  after_loop mdl multiple_inputs caller_config
                    (while_true fuel api mdl gc is_chat_model inps w1)))"

subsection \<open>Attempts that are retried\<close>



subsection \<open>Example objects\<close>

text \<open>
  A small encoding (one token per character, its code), a tokenizer and a model built
  from a reference configuration, the default generation configuration, and remote sides
  that behave in the ways the properties below speak of.
\<close>

definition example_encoding :: Encoding where
  "example_encoding = \<lparr> tk_encode = (\<lambda>t _. map of_char t), tk_decode = map char_of \<rparr>"

definition example_model_config :: ModelConfig where
  "example_model_config = \<lparr> model_id = ''gpt'' \<rparr>"

definition example_tokenizer :: "PretrainedConfig \<Rightarrow> OpenAITokenizer" where
  "example_tokenizer hf = OpenAITokenizer_init (\<lambda>_. example_encoding) example_model_config hf"

definition example_model :: "PretrainedConfig \<Rightarrow> OpenAIModel" where
  "example_model hf = OpenAIModel_init example_model_config hf (example_tokenizer hf)"

definition config_with_pad :: PretrainedConfig where
  "config_with_pad =
     \<lparr> cfg_bos_token_id = Some 1, cfg_eos_token_id = Some 2, cfg_pad_token_id = Some 3 \<rparr>"

definition config_without_pad :: PretrainedConfig where
  "config_without_pad =
     \<lparr> cfg_bos_token_id = Some 1, cfg_eos_token_id = Some 2, cfg_pad_token_id = None \<rparr>"

definition config_with_zero :: PretrainedConfig where
  "config_with_zero =
     \<lparr> cfg_bos_token_id = Some 0, cfg_eos_token_id = Some 0, cfg_pad_token_id = Some 0 \<rparr>"

definition config_with_zero_pad :: PretrainedConfig where
  "config_with_zero_pad =
     \<lparr> cfg_bos_token_id = Some 1, cfg_eos_token_id = Some 2, cfg_pad_token_id = Some 0 \<rparr>"

definition config_with_large_pad :: PretrainedConfig where
  "config_with_large_pad =
     \<lparr> cfg_bos_token_id = Some 1, cfg_eos_token_id = Some 2,
       cfg_pad_token_id = Some 16777217 \<rparr>"

definition default_generation_config :: GenerationConfig where
  "default_generation_config =
     [''max_length'' \<mapsto> IntV 20, ''temperature'' \<mapsto> FloatV 1, ''top_p'' \<mapsto> FloatV 1,
      ''num_return_sequences'' \<mapsto> IntV 1, ''repetition_penalty'' \<mapsto> FloatV 1]"

definition example_GenerationConfig :: "kwargs \<Rightarrow> GenerationConfig" where
  "example_GenerationConfig generation_kwargs =
     fold (\<lambda>(key, val) ob. setattr ob key val) generation_kwargs default_generation_config"

definition chat_model_message :: string where
  "chat_model_message =
     ''This is a chat model and not supported in the v1/completions endpoint.''"

definition empty_world :: world where
  "empty_world = \<lparr> requests = [], slept = [] \<rparr>"

text \<open>A completion model that answers every request with two choices.\<close>

definition completion_backend :: remote_api where
  "completion_backend k rq = Inr [''ab'', '' c'']"

text \<open>A chat model: the probe is refused, every later request gets two choices.\<close>

definition chat_backend :: remote_api where
  "chat_backend k rq =
     (if k = 0 then Inl (InvalidRequestError chat_model_message) else Inr [''  hi '', ''there''])"


text \<open>A chat model whose answers differ in length.\<close>

definition uneven_chat_backend :: remote_api where
  "uneven_chat_backend k rq =
     (if k = 0 then Inl (InvalidRequestError chat_model_message)
      else if k = 1 then Inr [''hi''] else Inr [''h''])"

text \<open>A remote side that is over its rate limit from the first request on.\<close>

definition rate_limited_backend :: remote_api where
  "rate_limited_backend k rq = Inl RateLimitError"

text \<open>
  A remote side that changes between two calls: its first request (the probe of the first
  call) is refused as for a chat model, everything after that is answered.
\<close>

definition switching_backend :: remote_api where
  "switching_backend k rq =
     (if k = 0 then Inl (InvalidRequestError chat_model_message) else Inr [''ok''])"

section \<open>Properties of the floating-point conversions\<close>

lemma bit_length_le: "n < 2 ^ k \<Longrightarrow> bit_length n \<le> k"
proof (induction n arbitrary: k rule: bit_length.induct)
  case (1 n)
  show ?case
  proof (cases "n = 0")
    case True
    then show ?thesis by (simp add: bit_length.simps)
  next
    case False
    then obtain k' where k: "k = Suc k'"
      using "1.prems" by (cases k) auto
    have "n div 2 < 2 ^ k'"
      using "1.prems" k by auto
    then have "bit_length (n div 2) \<le> k'"
      using "1.IH" False by blast
    then show ?thesis
      using False k by (subst bit_length.simps) simp
  qed
qed

lemma round_bits_exact: "\<bar>x\<bar> < 2 ^ p \<Longrightarrow> round_bits p x = x"
proof -
  assume "\<bar>x\<bar> < 2 ^ p"
  then have "nat \<bar>x\<bar> < 2 ^ p"
    by (metis abs_ge_zero nat_less_iff of_nat_numeral of_nat_power)
  then have "bit_length (nat \<bar>x\<bar>) \<le> p"
    by (rule bit_length_le)
  then show ?thesis
    by (simp add: round_bits_def Let_def)
qed

text \<open>Integers below \<open>2 ^ 24\<close> in magnitude pass through a 32-bit float unchanged.\<close>

lemma float32_exact: "\<bar>x\<bar> < 16777216 \<Longrightarrow> float32 x = x"
proof -
  assume a: "\<bar>x\<bar> < 16777216"
  have "\<bar>x\<bar> < 2 ^ 53" using a by simp
  then have "round_bits 53 x = x" by (rule round_bits_exact)
  moreover have "\<bar>x\<bar> < 2 ^ 24" using a by simp
  then have "round_bits 24 x = x" by (rule round_bits_exact)
  ultimately show ?thesis by (simp add: float32_def)
qed

lemma Tensor_exact: "list_all (\<lambda>x. \<bar>x\<bar> < 16777216) data \<Longrightarrow> Tensor data = data"
  by (induction data) (simp_all add: Tensor_def float32_exact)

lemma length_Tensor: "length (Tensor data) = length data"
  by (simp add: Tensor_def)

text \<open>The first integer that a 32-bit float cannot hold is rounded to its even neighbour.\<close>

lemma bit_length_16777217: "bit_length 16777217 = 25"
  by (simp add: bit_length.simps)

lemma float32_16777217: "float32 16777217 = 16777216"
proof -
  have "round_bits 53 16777217 = 16777217"
    by (rule round_bits_exact) simp
  moreover have "round_bits 24 16777217 = 16777216"
    by (simp add: round_bits_def bit_length_16777217 Let_def)
  ultimately show ?thesis by (simp add: float32_def)
qed

lemma binary64_zero: "binary64 0 = 0"
  by (simp add: binary64_def round_binary_def)

section \<open>Properties of the tokenizer\<close>

subsection \<open>Padding\<close>

lemma max_len_Max: "seqs \<noteq> [] \<Longrightarrow> max_len seqs = Max (length ` set seqs)"
proof (induction seqs)
  case Nil
  then show ?case by simp
next
  case (Cons s seqs)
  show ?case
  proof (cases "seqs = []")
    case True
    then show ?thesis by (simp add: max_len_def)
  next
    case False
    with Cons.IH have "max_len seqs = Max (length ` set seqs)" by simp
    moreover have "max_len (s # seqs) = max (length s) (max_len seqs)"
      by (simp add: max_len_def)
    ultimately show ?thesis using False by simp
  qed
qed

lemma length_le_max_len: "s \<in> set seqs \<Longrightarrow> length s \<le> max_len seqs"
  by (induction seqs) (auto simp: max_len_def)

lemma length_padded_rows: "length (padded_rows seqs p) = length seqs"
  by (simp add: padded_rows_def)

lemma nth_padded_rows:
  "i < length seqs \<Longrightarrow>
     padded_rows seqs p ! i = seqs ! i @ replicate (max_len seqs - length (seqs ! i)) p"
  by (simp add: padded_rows_def)

lemma length_nth_padded_rows:
  "i < length seqs \<Longrightarrow> length (padded_rows seqs p ! i) = max_len seqs"
  using length_le_max_len [of "seqs ! i" seqs] by (simp add: nth_padded_rows)

text \<open>The token IDs that the constructor stores.\<close>

lemma tokenizer_init_ids:
  "bos_token_id (OpenAITokenizer_init encoding_for_model mc hf) = py_or (cfg_bos_token_id hf) (- 1)"
  "cls_token_id (OpenAITokenizer_init encoding_for_model mc hf) = py_or (cfg_bos_token_id hf) (- 1)"
  "eos_token_id (OpenAITokenizer_init encoding_for_model mc hf) = py_or (cfg_eos_token_id hf) (- 1)"
  "sep_token_id (OpenAITokenizer_init encoding_for_model mc hf) = py_or (cfg_eos_token_id hf) (- 1)"
  "pad_token_id (OpenAITokenizer_init encoding_for_model mc hf) = py_or (cfg_pad_token_id hf) (- 1)"
  by (simp_all add: OpenAITokenizer_init_def Let_def)

lemma OpenAITokenizer_call_list:
  "text_list \<noteq> [] \<Longrightarrow>
     OpenAITokenizer_call tok (StrList text_list) =
       Inr (padded_rows
              (map (\<lambda>t. Tensor (tk_encode (encoding tok) t (allowed_special tok))) text_list)
              (float32 (pad_token_id tok)))"
  by (simp add: OpenAITokenizer_call_def pad_sequence_def)

text \<open>The shape of a padded batch.\<close>

lemma padded_rows_shape:
  assumes "seqs \<noteq> []" and i: "i < length seqs"
  shows "length (padded_rows seqs p ! i) = Max (length ` set seqs)
       \<and> take (length (seqs ! i)) (padded_rows seqs p ! i) = seqs ! i
       \<and> (\<forall>j. length (seqs ! i) \<le> j \<and> j < length (padded_rows seqs p ! i)
              \<longrightarrow> padded_rows seqs p ! i ! j = p)"
proof -
  have r: "padded_rows seqs p ! i = seqs ! i @ replicate (max_len seqs - length (seqs ! i)) p"
    by (rule nth_padded_rows [OF i])
  have l: "length (padded_rows seqs p ! i) = max_len seqs"
    by (rule length_nth_padded_rows [OF i])
  show ?thesis
    using l max_len_Max [OF assms(1)] by (auto simp: r nth_append)
qed

text \<open>
  C6. For every non-empty list of input strings, the tokenizer's call returns a 2-D array
  with one row per string in which every row has the length of the longest encoding,
  each row begins with the encoding of its string, and every entry after that is the
  pad token ID: the configured one, or \<open>-1\<close> when none is configured. The call holds
  the rows in 32-bit floats, so this needs every token ID and the pad token ID to be below
  \<open>2 ^ 24\<close> in magnitude, as the IDs of every vocabulary are. (A configured pad token ID
  of \<open>0\<close> is the subject of C4.)
\<close>

theorem encode_batch_is_padded:
  assumes ne: "text_list \<noteq> []"
    and tok: "tok = OpenAITokenizer_init encoding_for_model mc hf"
    and nz: "cfg_pad_token_id hf \<noteq> Some 0"
    and padr: "\<forall>p. cfg_pad_token_id hf = Some p \<longrightarrow> \<bar>p\<bar> < 2 ^ 24"
    and idr: "\<forall>t \<in> set text_list.
                \<forall>x \<in> set (tk_encode (encoding tok) t (allowed_special tok)). \<bar>x\<bar> < 2 ^ 24"
  shows "\<exists>rows. OpenAITokenizer_call tok (StrList text_list) = Inr rows
           \<and> length rows = length text_list
           \<and> (\<forall>i<length text_list.
                 length (rows ! i) =
                   Max ((\<lambda>t. length (tk_encode (encoding tok) t (allowed_special tok)))
                          ` set text_list)
               \<and> take (length (tk_encode (encoding tok) (text_list ! i) (allowed_special tok)))
                    (rows ! i)
                   = tk_encode (encoding tok) (text_list ! i) (allowed_special tok)
               \<and> (\<forall>j. length (tk_encode (encoding tok) (text_list ! i) (allowed_special tok)) \<le> j
                        \<and> j < length (rows ! i)
                      \<longrightarrow> rows ! i ! j
                            = (case cfg_pad_token_id hf of None \<Rightarrow> - 1 | Some p \<Rightarrow> p)))"
proof -
  let ?enc = "\<lambda>t. tk_encode (encoding tok) t (allowed_special tok)"
  let ?seqs = "map ?enc text_list"
  let ?pad = "case cfg_pad_token_id hf of None \<Rightarrow> - 1 | Some p \<Rightarrow> p"
  let ?rows = "padded_rows ?seqs ?pad"
  have pad: "pad_token_id tok = ?pad"
    using nz by (cases "cfg_pad_token_id hf") (simp_all add: tok tokenizer_init_ids)
  have "\<bar>?pad\<bar> < 16777216"
    using padr by (cases "cfg_pad_token_id hf") simp_all
  then have fpad: "float32 (pad_token_id tok) = ?pad"
    by (simp add: pad float32_exact)
  have "Tensor (?enc t) = ?enc t" if "t \<in> set text_list" for t
    using idr that by (intro Tensor_exact) (simp add: list_all_iff)
  then have seqs: "map (\<lambda>t. Tensor (?enc t)) text_list = ?seqs"
    by simp
  have call: "OpenAITokenizer_call tok (StrList text_list) = Inr ?rows"
    by (simp add: OpenAITokenizer_call_list [OF ne] seqs fpad)
  have ne': "?seqs \<noteq> []" using ne by simp
  have row: "length (?rows ! i) = Max ((\<lambda>t. length (?enc t)) ` set text_list)
      \<and> take (length (?enc (text_list ! i))) (?rows ! i) = ?enc (text_list ! i)
      \<and> (\<forall>j. length (?enc (text_list ! i)) \<le> j \<and> j < length (?rows ! i)
             \<longrightarrow> ?rows ! i ! j = ?pad)"
    if i: "i < length text_list" for i
  proof -
    have li: "i < length ?seqs" using i by simp
    show ?thesis
      using padded_rows_shape [OF ne' li, of ?pad] i by (simp add: image_image)
  qed
  show ?thesis
    using call row by (intro exI [of _ ?rows]) (simp add: length_padded_rows)
qed

theorem encode_batch_is_padded_witness:
  "[''ab'', ''c''] \<noteq> []
   \<and> cfg_pad_token_id config_with_pad = Some 3
   \<and> (\<exists>rows. OpenAITokenizer_call (example_tokenizer config_with_pad) (StrList [''ab'', ''c''])
             = Inr rows
        \<and> rows = [[97, 98], [99, 3]])"
proof -
  let ?tok = "example_tokenizer config_with_pad"
  have h1: "[''ab'', ''c''] \<noteq> []" by simp
  have h2: "?tok = OpenAITokenizer_init (\<lambda>_. example_encoding) example_model_config config_with_pad"
    by (simp add: example_tokenizer_def)
  have h3: "cfg_pad_token_id config_with_pad \<noteq> Some 0"
    by (simp add: config_with_pad_def)
  have h4: "\<forall>p. cfg_pad_token_id config_with_pad = Some p \<longrightarrow> \<bar>p\<bar> < 2 ^ 24"
    by (simp add: config_with_pad_def)
  have h5: "\<forall>t \<in> set [''ab'', ''c''].
              \<forall>x \<in> set (tk_encode (encoding ?tok) t (allowed_special ?tok)). \<bar>x\<bar> < 2 ^ 24"
    by (simp add: example_tokenizer_def OpenAITokenizer_init_def example_encoding_def Let_def)
  have v: "OpenAITokenizer_call ?tok (StrList [''ab'', ''c'']) = Inr [[97, 98], [99, 3]]"
    by (simp add: OpenAITokenizer_call_def pad_sequence_def padded_rows_def max_len_def
        example_tokenizer_def OpenAITokenizer_init_def example_encoding_def
        config_with_pad_def Tensor_def float32_exact)
  from encode_batch_is_padded [OF h1 h2 h3 h4 h5]
  obtain rows where "OpenAITokenizer_call ?tok (StrList [''ab'', ''c'']) = Inr rows"
    by blast
  with v h1 show ?thesis by (simp add: config_with_pad_def)
qed

text \<open>
  Without the bound the claim fails: a configured pad token ID of \<open>2 ^ 24 + 1\<close> is kept
  by the tokenizer, and the batch is padded with \<open>2 ^ 24\<close>.
\<close>

theorem encode_pads_with_rounded_id:
  "cfg_pad_token_id config_with_large_pad = Some 16777217
   \<and> pad_token_id (example_tokenizer config_with_large_pad) = 16777217
   \<and> OpenAITokenizer_call (example_tokenizer config_with_large_pad) (StrList [''ab'', ''c''])
       = Inr [[97, 98], [99, 16777216]]"
  by (simp add: OpenAITokenizer_call_def pad_sequence_def padded_rows_def max_len_def
      example_tokenizer_def OpenAITokenizer_init_def example_encoding_def
      config_with_large_pad_def Tensor_def float32_exact float32_16777217)

subsection \<open>Decoding\<close>

text \<open>
  C8. For every list of token IDs, \<open>decode\<close> returns the decoding of the list without
  the entries equal to the pad token ID, in the same order; every other token ID, a
  special one or not, is kept as often as it occurs.
\<close>

theorem decode_removes_only_pad:
  "OpenAITokenizer_decode tok token_ids
     = tk_decode (encoding tok) (removeAll (pad_token_id tok) token_ids)
   \<and> subseq (removeAll (pad_token_id tok) token_ids) token_ids
   \<and> (\<forall>t. t \<noteq> pad_token_id tok \<longrightarrow>
          count_list (removeAll (pad_token_id tok) token_ids) t = count_list token_ids t)"
proof -
  have f: "filter (\<lambda>token_id. token_id \<noteq> pad_token_id tok) token_ids
             = removeAll (pad_token_id tok) token_ids"
    by (induction token_ids) auto
  have c: "count_list (removeAll p ids) t = count_list ids t" if "t \<noteq> p" for p t :: int and ids
    using that by (induction ids) auto
  show ?thesis
    using c by (simp add: OpenAITokenizer_decode_def f removeAll_filter_not_eq)
qed

theorem decode_removes_only_pad_witness:
  "eos_token_id (example_tokenizer config_with_pad) \<noteq> pad_token_id (example_tokenizer config_with_pad)
   \<and> OpenAITokenizer_decode (example_tokenizer config_with_pad) [104, 3, 2, 105, 3]
       = tk_decode (encoding (example_tokenizer config_with_pad)) [104, 2, 105]
   \<and> count_list (removeAll (pad_token_id (example_tokenizer config_with_pad)) [104, 3, 2, 105, 3])
        (eos_token_id (example_tokenizer config_with_pad)) = 1"
proof -
  have ids: "eos_token_id (example_tokenizer config_with_pad) = 2"
    "pad_token_id (example_tokenizer config_with_pad) = 3"
    by (simp_all add: example_tokenizer_def OpenAITokenizer_init_def config_with_pad_def)
  have h: "eos_token_id (example_tokenizer config_with_pad)
             \<noteq> pad_token_id (example_tokenizer config_with_pad)"
    by (simp add: ids)
  show ?thesis
    using h decode_removes_only_pad [of "example_tokenizer config_with_pad" "[104, 3, 2, 105, 3]"]
    by (simp add: ids)
qed

subsection \<open>Construction\<close>

text \<open>
  C4. The token IDs of the constructed tokenizer are those of the reference configuration
  when it provides them and \<open>-1\<close> when it does not. The constructor does not keep a
  provided ID of \<open>0\<close>: \<open>x or -1\<close> takes \<open>0\<close> for a missing value, so a
  configuration whose IDs are all \<open>0\<close> gives a tokenizer whose IDs are all \<open>-1\<close>,
  and a configuration whose pad token ID alone is \<open>0\<close> gives the pad token ID \<open>-1\<close>.
\<close>

theorem tokenizer_init_loses_zero:
  "cfg_bos_token_id config_with_zero = Some 0
   \<and> cfg_eos_token_id config_with_zero = Some 0
   \<and> cfg_pad_token_id config_with_zero = Some 0
   \<and> bos_token_id (OpenAITokenizer_init encoding_for_model mc config_with_zero) = - 1
   \<and> cls_token_id (OpenAITokenizer_init encoding_for_model mc config_with_zero) = - 1
   \<and> eos_token_id (OpenAITokenizer_init encoding_for_model mc config_with_zero) = - 1
   \<and> sep_token_id (OpenAITokenizer_init encoding_for_model mc config_with_zero) = - 1
   \<and> pad_token_id (OpenAITokenizer_init encoding_for_model mc config_with_zero) = - 1
   \<and> cfg_bos_token_id config_with_zero_pad = Some 1
   \<and> cfg_eos_token_id config_with_zero_pad = Some 2
   \<and> cfg_pad_token_id config_with_zero_pad = Some 0
   \<and> bos_token_id (OpenAITokenizer_init encoding_for_model mc config_with_zero_pad) = 1
   \<and> eos_token_id (OpenAITokenizer_init encoding_for_model mc config_with_zero_pad) = 2
   \<and> pad_token_id (OpenAITokenizer_init encoding_for_model mc config_with_zero_pad) = - 1"
  by (simp add: OpenAITokenizer_init_def config_with_zero_def config_with_zero_pad_def Let_def)

lemma py_or_nonzero: "x \<noteq> 0 \<Longrightarrow> py_or (Some x) d = x"
  by simp

section \<open>Properties of generate\<close>

subsection \<open>Re-tokenizing never fails\<close>

lemma max_len_single: "max_len [s] = length s"
  by (simp add: max_len_def)

lemma OpenAITokenizer_call_str:
  "OpenAITokenizer_call tok (Str s)
     = Inr [Tensor (tk_encode (encoding tok) s (allowed_special tok))]"
  by (simp add: OpenAITokenizer_call_def pad_sequence_def padded_rows_def max_len_single)

lemma retokenize_eq:
  "retokenize tok text
     = Inr (Tensor (tk_encode (encoding tok) (strip text) (allowed_special tok)))"
  by (simp add: retokenize_def OpenAITokenizer_call_str)

lemma retokenize_choices_eq:
  "retokenize_choices tok choices =
     Inr (map (\<lambda>c. Tensor (tk_encode (encoding tok) (strip c) (allowed_special tok))) choices)"
  by (induction choices) (simp_all add: retokenize_eq)

subsection \<open>The completion branch\<close>

text \<open>
  The \<open>break\<close> of the loop stands at the end of the chat branch only. An attempt on a
  completion model therefore never leaves the loop with a result: whatever the remote
  side answers, \<open>generate\<close> does not return a tensor.
\<close>

lemma try_body_completion_no_break:
  "fst (try_body api mdl gc False inps w) \<noteq> Breaks completion_ids_list"
  by (simp add: try_body_def retokenize_choices_eq split: sum.splits prod.splits)

lemma while_true_completion_no_return:
  "fst (while_true fuel api mdl gc False inps w) \<noteq> Returned completion_ids_list"
proof (induction fuel arbitrary: w)
  case 0
  show ?case by simp
next
  case (Suc fuel)
  obtain a w' where tb: "try_body api mdl gc False inps w = (a, w')"
    by (cases "try_body api mdl gc False inps w")
  have nb: "a \<noteq> Breaks ids" for ids
    using try_body_completion_no_break [of api mdl gc inps w ids] tb by simp
  show ?case
    using Suc.IH nb by (cases a) (simp_all add: tb)
qed

lemma after_loop_Returned:
  "fst (after_loop mdl m c r) = Returned t \<Longrightarrow> \<exists>ids. fst r = Returned ids"
  by (cases r; cases "fst r") (auto simp: after_loop_def split: sum.splits)

lemma generate_completion_no_return:
  assumes "fst (check_chat_model api mdl w) = Inr False"
  shows "fst (generate fuel api mk mdl inputs g kw w) \<noteq> Returned t"
proof
  assume r: "fst (generate fuel api mk mdl inputs g kw w) = Returned t"
  obtain gc caller where rs: "resolve_generation_config mk g kw = (gc, caller)"
    by (cases "resolve_generation_config mk g kw")
  obtain w1 where ck: "check_chat_model api mdl w = (Inr False, w1)"
    using assms by (cases "check_chat_model api mdl w") simp
  from r have "fst (after_loop mdl (dim inputs = 2) caller
      (while_true fuel api mdl gc False (make_inputs_list mdl inputs) w1)) = Returned t"
    by (simp add: generate_def rs ck)
  then obtain ids where
    "fst (while_true fuel api mdl gc False (make_inputs_list mdl inputs) w1) = Returned ids"
    using after_loop_Returned by blast
  then show False using while_true_completion_no_return by blast
qed

lemma while_true_completion_diverges:
  assumes sa: "sampling_args mdl gc = Inr (max_tokens, sp)"
    and ok: "\<And>k rq. \<exists>choices. api k rq = Inr choices"
  shows "while_true fuel api mdl gc False inps w =
           (Diverged,
            w\<lparr>requests := requests w
                 @ replicate fuel (Completion (model_id (model_config mdl)) (TokenPrompt inps)
                                     max_tokens (Some sp))\<rparr>)"
proof (induction fuel arbitrary: w)
  case 0
  show ?case by simp
next
  case (Suc fuel)
  let ?rq = "Completion (model_id (model_config mdl)) (TokenPrompt inps) max_tokens (Some sp)"
  obtain choices where c: "api (length (requests w)) ?rq = Inr choices"
    using ok by blast
  have tb: "try_body api mdl gc False inps w =
      (FallsThrough (map (\<lambda>c. Tensor (tk_encode (encoding (tokenizer mdl)) (strip c)
                                 (allowed_special (tokenizer mdl)))) choices),
       w\<lparr>requests := requests w @ [?rq]\<rparr>)"
    by (simp add: try_body_def sa create_def c retokenize_choices_eq)
  show ?case
    by (simp add: tb Suc.IH replicate_app_Cons_same)
qed

lemma example_sampling_args:
  "sampling_args (example_model hf) (example_GenerationConfig []) =
     Inr (IntV 20,
          \<lparr> arg_temperature = FloatV 1, arg_top_p = FloatV 1, arg_n = IntV 1,
            arg_frequency_penalty = FloatV 0,
            arg_stop = [[CHR 0x0A, CHR 0x0A], eos_token (example_tokenizer hf), ''<pad>''] \<rparr>)"
  by (simp add: sampling_args_def getattr_def example_GenerationConfig_def
      default_generation_config_def example_model_def OpenAIModel_init_def
      example_tokenizer_def OpenAITokenizer_init_def Let_def binary64_zero)

text \<open>
  C1. For a batched input on a completion model, \<open>generate\<close> should issue exactly one
  batched completion request, stop after the first successful response and return a
  tensor with one row per input sequence. On a remote side that answers every request,
  the code does not: for every amount of fuel the call is still in its loop, having
  issued the probe and as many batched completion requests as it had rounds.
\<close>

theorem completion_generate_never_returns:
  "fst (generate fuel completion_backend example_GenerationConfig (example_model config_with_pad)
          (Tensor2 [[5, 3], [6, 7]]) None [] empty_world) = Diverged
   \<and> length (requests (snd (snd
        (generate fuel completion_backend example_GenerationConfig (example_model config_with_pad)
           (Tensor2 [[5, 3], [6, 7]]) None [] empty_world)))) = Suc fuel"
proof -
  have ok: "\<And>k rq. \<exists>choices. completion_backend k rq = Inr choices"
    by (simp add: completion_backend_def)
  have ck: "check_chat_model completion_backend (example_model config_with_pad) empty_world =
      (Inr False, empty_world\<lparr>requests := [probe_request (example_model config_with_pad)]\<rparr>)"
    by (simp add: check_chat_model_def create_def completion_backend_def empty_world_def)
  show ?thesis
    by (simp add: generate_def resolve_generation_config_def ck after_loop_def
        while_true_completion_diverges [OF example_sampling_args ok])
qed

subsection \<open>The probe\<close>

lemma chat_model_message_str_in: "str_in ''This is a chat model'' chat_model_message"
  by (simp add: chat_model_message_def)

lemma check_chat_model_chat:
  assumes "api (length (requests w)) (probe_request mdl) = Inl (InvalidRequestError msg)"
    and "str_in ''This is a chat model'' msg"
  shows "check_chat_model api mdl w = (Inr True, w\<lparr>requests := requests w @ [probe_request mdl]\<rparr>)"
  using assms by (simp add: check_chat_model_def create_def)

lemma check_chat_model_completion:
  assumes "api (length (requests w)) (probe_request mdl) = Inr choices"
  shows "check_chat_model api mdl w = (Inr False, w\<lparr>requests := requests w @ [probe_request mdl]\<rparr>)"
  using assms by (simp add: check_chat_model_def create_def)

lemma check_chat_model_raises:
  assumes "api (length (requests w)) (probe_request mdl) = Inl e"
    and "\<And>msg. e = InvalidRequestError msg \<Longrightarrow> \<not> str_in ''This is a chat model'' msg"
  shows "check_chat_model api mdl w = (Inl e, w\<lparr>requests := requests w @ [probe_request mdl]\<rparr>)"
  using assms by (cases e) (simp_all add: check_chat_model_def create_def)

lemma check_chat_model_world:
  "snd (check_chat_model api mdl w) = w\<lparr>requests := requests w @ [probe_request mdl]\<rparr>"
  by (simp add: check_chat_model_def create_def split: sum.splits error.splits)

lemma example_model_fields:
  "model_config (example_model hf) = example_model_config"
  "config (example_model hf) = hf"
  "tokenizer (example_model hf) = example_tokenizer hf"
  by (simp_all add: example_model_def OpenAIModel_init_def)

lemma example_tokenizer_fields:
  "encoding (example_tokenizer hf) = example_encoding"
  "pad_token_id (example_tokenizer hf) = py_or (cfg_pad_token_id hf) (- 1)"
  "pad_token (example_tokenizer hf) = ''<pad>''"
  by (simp_all add: example_tokenizer_def OpenAITokenizer_init_def Let_def)

lemma check_chat_backend:
  "check_chat_model chat_backend mdl empty_world =
     (Inr True, empty_world\<lparr>requests := [probe_request mdl]\<rparr>)"
  using check_chat_model_chat [of chat_backend empty_world mdl chat_model_message]
  by (simp add: chat_backend_def empty_world_def chat_model_message_str_in)

lemma check_completion_backend:
  "check_chat_model completion_backend mdl empty_world =
     (Inr False, empty_world\<lparr>requests := [probe_request mdl]\<rparr>)"
  using check_chat_model_completion [of completion_backend empty_world mdl]
  by (simp add: completion_backend_def empty_world_def)

subsection \<open>A single input sequence\<close>

text \<open>
  C3. For a 1-D input tensor, \<open>generate\<close> should return the 1-D tensor of the token IDs
  of the single output sequence. The code does not: on a chat model the loop iterates over
  the token IDs of the flat list and \<open>decode\<close> is given an integer, which raises
  \<open>TypeError\<close> before any chat request; on a completion model the call never leaves
  the loop.
\<close>

theorem single_input_generate_fails:
  "fst (generate (Suc fuel) chat_backend example_GenerationConfig (example_model config_with_pad)
          (Tensor1 [5, 3, 6]) None [] empty_world) = Raised TypeError
   \<and> fst (generate fuel completion_backend example_GenerationConfig (example_model config_with_pad)
          (Tensor1 [5, 3, 6]) None [] empty_world) = Diverged"
proof -
  have ok: "\<And>k rq. \<exists>choices. completion_backend k rq = Inr choices"
    by (simp add: completion_backend_def)
  have a: "fst (generate (Suc fuel) chat_backend example_GenerationConfig
                  (example_model config_with_pad) (Tensor1 [5, 3, 6]) None [] empty_world)
             = Raised TypeError"
    by (simp add: generate_def resolve_generation_config_def check_chat_backend after_loop_def
        make_inputs_list_def remove_padding_def try_body_def chat_completion_def
        example_model_fields config_with_pad_def)
  have b: "fst (generate fuel completion_backend example_GenerationConfig
                  (example_model config_with_pad) (Tensor1 [5, 3, 6]) None [] empty_world)
             = Diverged"
    by (simp add: generate_def resolve_generation_config_def check_completion_backend
        after_loop_def while_true_completion_diverges [OF example_sampling_args ok])
  show ?thesis using a b by simp
qed

lemma example_encode:
  "tk_encode example_encoding s a = map of_char s"
  by (simp add: example_encoding_def)

lemma check_uneven_chat_backend:
  "check_chat_model uneven_chat_backend mdl empty_world =
     (Inr True, empty_world\<lparr>requests := [probe_request mdl]\<rparr>)"
  using check_chat_model_chat [of uneven_chat_backend empty_world mdl chat_model_message]
  by (simp add: uneven_chat_backend_def empty_world_def chat_model_message_str_in)

lemma generate_completion_diverges:
  assumes sa: "sampling_args mdl (fst (resolve_generation_config mk g kw)) = Inr (max_tokens, sp)"
    and ok: "\<And>k rq. \<exists>choices. api k rq = Inr choices"
  shows "generate fuel api mk mdl inputs g kw w =
           (Diverged, snd (resolve_generation_config mk g kw),
            w\<lparr>requests := requests w @ probe_request mdl
                 # replicate fuel (Completion (model_id (model_config mdl))
                                     (TokenPrompt (make_inputs_list mdl inputs))
                                     max_tokens (Some sp))\<rparr>)"
proof -
  obtain gc caller where rs: "resolve_generation_config mk g kw = (gc, caller)"
    by (cases "resolve_generation_config mk g kw")
  obtain choices where "api (length (requests w)) (probe_request mdl) = Inr choices"
    using ok by blast
  then have ck: "check_chat_model api mdl w =
      (Inr False, w\<lparr>requests := requests w @ [probe_request mdl]\<rparr>)"
    by (rule check_chat_model_completion)
  have sa': "sampling_args mdl gc = Inr (max_tokens, sp)"
    using sa by (simp add: rs)
  show ?thesis
    by (simp add: generate_def rs ck after_loop_def while_true_completion_diverges [OF sa' ok])
qed

lemma example_resolve_None:
  "resolve_generation_config example_GenerationConfig None [] = (example_GenerationConfig [], None)"
  by (simp add: resolve_generation_config_def)

lemma completion_backend_answers: "\<exists>choices. completion_backend k rq = Inr choices"
  by (simp add: completion_backend_def)

lemma example_generate_completion:
  "generate fuel completion_backend example_GenerationConfig (example_model hf) inputs None [] w =
     (Diverged, None,
      w\<lparr>requests := requests w @ probe_request (example_model hf)
           # replicate fuel
               (Completion ''gpt'' (TokenPrompt (make_inputs_list (example_model hf) inputs))
                  (IntV 20)
                  (Some \<lparr> arg_temperature = FloatV 1, arg_top_p = FloatV 1, arg_n = IntV 1,
                          arg_frequency_penalty = FloatV 0,
                          arg_stop = [[CHR 0x0A, CHR 0x0A], eos_token (example_tokenizer hf),
                                      ''<pad>''] \<rparr>))\<rparr>)"
proof -
  have sa: "sampling_args (example_model hf)
              (fst (resolve_generation_config example_GenerationConfig None []))
            = Inr (IntV 20,
                \<lparr> arg_temperature = FloatV 1, arg_top_p = FloatV 1, arg_n = IntV 1,
                  arg_frequency_penalty = FloatV 0,
                  arg_stop = [[CHR 0x0A, CHR 0x0A], eos_token (example_tokenizer hf),
                              ''<pad>''] \<rparr>)"
    by (simp add: example_resolve_None example_sampling_args)
  show ?thesis
    using generate_completion_diverges [OF sa completion_backend_answers,
        where fuel = fuel and inputs = inputs and w = w]
    by (simp add: example_resolve_None example_model_fields example_model_config_def)
qed

subsection \<open>Pad token IDs\<close>

text \<open>
  C5. The token-ID sequences sent to the remote API should contain no pad token IDs, and
  the output batch should be padded with the pad token ID that was removed from the
  inputs. The code removes \<open>self.config.pad_token_id\<close> and pads with
  \<open>self.tokenizer.pad_token_id\<close>, which differ when the reference configuration has no
  pad token ID or has \<open>0\<close>: the tokenizer then pads with \<open>-1\<close>. With no pad token ID
  in the configuration, a batch padded by the tokenizer is sent to the completion
  endpoint with its \<open>-1\<close> entries; with the pad token ID \<open>0\<close>, the entries \<open>0\<close> are
  removed and the output is padded with \<open>-1\<close>.
\<close>

theorem pad_ids_sent_and_changed:
  "pad_token_id (example_tokenizer config_without_pad) = - 1
   \<and> OpenAITokenizer_call (example_tokenizer config_without_pad) (StrList [''ab'', ''c''])
       = Inr [[97, 98], [99, - 1]]
   \<and> requests (snd (snd (generate 1 completion_backend example_GenerationConfig
          (example_model config_without_pad) (Tensor2 [[97, 98], [99, - 1]]) None []
          empty_world))) ! 1
       = Completion ''gpt'' (TokenPrompt (Nested [[97, 98], [99, - 1]])) (IntV 20)
           (Some \<lparr> arg_temperature = FloatV 1, arg_top_p = FloatV 1, arg_n = IntV 1,
                   arg_frequency_penalty = FloatV 0,
                   arg_stop = [[CHR 0x0A, CHR 0x0A],
                               eos_token (example_tokenizer config_without_pad), ''<pad>''] \<rparr>)
   \<and> make_inputs_list (example_model config_with_zero) (Tensor2 [[5, 0], [6, 7]])
       = Nested [[5], [6, 7]]
   \<and> fst (generate 1 uneven_chat_backend example_GenerationConfig
          (example_model config_with_zero) (Tensor2 [[5, 0], [6, 7]]) None [] empty_world)
       = Returned (Tensor2 [[104, 105], [104, - 1]])"
proof -
  have a: "pad_token_id (example_tokenizer config_without_pad) = - 1"
    by (simp add: example_tokenizer_fields config_without_pad_def)
  have b: "OpenAITokenizer_call (example_tokenizer config_without_pad) (StrList [''ab'', ''c''])
       = Inr [[97, 98], [99, - 1]]"
    by (simp add: OpenAITokenizer_call_list padded_rows_def max_len_def
        example_tokenizer_fields example_encode config_without_pad_def Tensor_def
        float32_exact)
  have c: "requests (snd (snd (generate 1 completion_backend example_GenerationConfig
          (example_model config_without_pad) (Tensor2 [[97, 98], [99, - 1]]) None []
          empty_world))) ! 1
       = Completion ''gpt'' (TokenPrompt (Nested [[97, 98], [99, - 1]])) (IntV 20)
           (Some \<lparr> arg_temperature = FloatV 1, arg_top_p = FloatV 1, arg_n = IntV 1,
                   arg_frequency_penalty = FloatV 0,
                   arg_stop = [[CHR 0x0A, CHR 0x0A],
                               eos_token (example_tokenizer config_without_pad), ''<pad>''] \<rparr>)"
    by (simp add: example_generate_completion make_inputs_list_def remove_padding_def
        example_model_fields config_without_pad_def empty_world_def)
  have d: "make_inputs_list (example_model config_with_zero) (Tensor2 [[5, 0], [6, 7]])
       = Nested [[5], [6, 7]]"
    by (simp add: make_inputs_list_def remove_padding_def example_model_fields
        config_with_zero_def)
  have e: "fst (generate 1 uneven_chat_backend example_GenerationConfig
          (example_model config_with_zero) (Tensor2 [[5, 0], [6, 7]]) None [] empty_world)
       = Returned (Tensor2 [[104, 105], [104, - 1]])"
    by (simp add: generate_def resolve_generation_config_def check_uneven_chat_backend
        after_loop_def make_inputs_list_def remove_padding_def try_body_def
        chat_completion_def example_sampling_args create_def
        uneven_chat_backend_def retokenize_eq example_model_fields
        example_tokenizer_fields example_encode strip_def isspace_def output_tensor_def
        pad_sequence_def padded_rows_def max_len_def config_with_zero_def
        OpenAITokenizer_decode_def Tensor_def float32_exact)
  show ?thesis using a b c d e by simp
qed

text \<open>The filter does remove the pad token ID that the configuration names.\<close>

lemma remove_padding_removes:
  "p \<notin> set (remove_padding (Some p) token_ids)"
  by (simp add: remove_padding_def)

subsection \<open>What a call does to the world\<close>

text \<open>
  Requests are only ever added at the end of the log, and only the two \<open>except\<close>
  clauses of the loop sleep, ten seconds each time.
\<close>

lemma world_requests_id: "w\<lparr>requests := requests w @ []\<rparr> = (w :: world)"
  by simp

lemma chat_completion_world:
  "\<exists>ext. snd (chat_completion api mdl gc it w) = w\<lparr>requests := requests w @ ext\<rparr>"
proof (cases it)
  case (TokenId x)
  then show ?thesis
    by (intro exI [of _ "[]"]) (simp add: chat_completion_def)
next
  case (TokenIds input_ids)
  show ?thesis
  proof (cases "sampling_args mdl gc")
    case (Inl e)
    then show ?thesis
      using TokenIds by (intro exI [of _ "[]"]) (simp add: chat_completion_def)
  next
    case (Inr p)
    obtain max_tokens sp where p: "p = (max_tokens, sp)" by (cases p)
    show ?thesis
      using TokenIds Inr p
      by (intro exI [of _ "[ChatCompletion (model_id (model_config mdl))
              [(''user'', OpenAITokenizer_decode (tokenizer mdl) input_ids)] max_tokens sp]"])
        (simp add: chat_completion_def create_def Let_def split: sum.splits list.splits)
  qed
qed

lemma chat_loop_world:
  "\<exists>ext. snd (chat_loop api mdl gc its acc w) = w\<lparr>requests := requests w @ ext\<rparr>"
proof (induction its arbitrary: acc w)
  case Nil
  show ?case by (intro exI [of _ "[]"]) simp
next
  case (Cons it its)
  obtain r w' where cc: "chat_completion api mdl gc it w = (r, w')"
    by (cases "chat_completion api mdl gc it w")
  obtain ext where e: "w' = w\<lparr>requests := requests w @ ext\<rparr>"
    using chat_completion_world [of api mdl gc it w] cc by auto
  show ?case
  proof (cases r)
    case (Inl err)
    then show ?thesis using cc e by (intro exI [of _ ext]) simp
  next
    case (Inr ids)
    obtain ext' where
      "snd (chat_loop api mdl gc its (acc @ [ids]) w') = w'\<lparr>requests := requests w' @ ext'\<rparr>"
      using Cons.IH by blast
    then show ?thesis
      using cc e Inr by (intro exI [of _ "ext @ ext'"]) simp
  qed
qed

lemma try_body_world:
  "\<exists>ext. snd (try_body api mdl gc c inps w) = w\<lparr>requests := requests w @ ext\<rparr>"
proof (cases c)
  case True
  obtain r w' where cl: "chat_loop api mdl gc (items inps) [] w = (r, w')"
    by (cases "chat_loop api mdl gc (items inps) [] w")
  obtain ext where "w' = w\<lparr>requests := requests w @ ext\<rparr>"
    using chat_loop_world [of api mdl gc "items inps" "[]" w] cl by auto
  then show ?thesis
    using True cl by (intro exI [of _ ext]) (cases r; simp add: try_body_def)
next
  case False
  show ?thesis
  proof (cases "sampling_args mdl gc")
    case (Inl e)
    then show ?thesis
      using False by (intro exI [of _ "[]"]) (simp add: try_body_def)
  next
    case (Inr p)
    obtain max_tokens sp where p: "p = (max_tokens, sp)" by (cases p)
    show ?thesis
      using False Inr p
      by (intro exI [of _ "[Completion (model_id (model_config mdl)) (TokenPrompt inps)
              max_tokens (Some sp)]"])
        (simp add: try_body_def create_def split: sum.splits)
  qed
qed

lemma while_true_world:
  "\<exists>ext k. snd (while_true fuel api mdl gc c inps w) =
      w\<lparr>requests := requests w @ ext, slept := slept w @ replicate k 10\<rparr>"
proof (induction fuel arbitrary: w)
  case 0
  show ?case by (intro exI [of _ "[]"] exI [of _ 0]) simp
next
  case (Suc fuel)
  obtain a w' where tb: "try_body api mdl gc c inps w = (a, w')"
    by (cases "try_body api mdl gc c inps w")
  obtain ext where e: "w' = w\<lparr>requests := requests w @ ext\<rparr>"
    using try_body_world [of api mdl gc c inps w] tb by auto
  have again: "\<exists>ext' k. snd (while_true fuel api mdl gc c inps w') =
      w\<lparr>requests := requests w @ ext', slept := slept w @ replicate k 10\<rparr>"
  proof -
    obtain ext' k where "snd (while_true fuel api mdl gc c inps w') =
        w'\<lparr>requests := requests w' @ ext', slept := slept w' @ replicate k 10\<rparr>"
      using Suc.IH by blast
    then show ?thesis
      using e by (intro exI [of _ "ext @ ext'"] exI [of _ k]) simp
  qed
  have slept_again: "\<exists>ext' k. snd (while_true fuel api mdl gc c inps (sleep 10 w')) =
      w\<lparr>requests := requests w @ ext', slept := slept w @ replicate k 10\<rparr>"
  proof -
    obtain ext' k where "snd (while_true fuel api mdl gc c inps (sleep 10 w')) =
        (sleep 10 w')\<lparr>requests := requests (sleep 10 w') @ ext',
                       slept := slept (sleep 10 w') @ replicate k 10\<rparr>"
      using Suc.IH by blast
    then show ?thesis
      using e
      by (intro exI [of _ "ext @ ext'"] exI [of _ "Suc k"])
        (simp add: sleep_def replicate_app_Cons_same)
  qed
  show ?case
  proof (cases a)
    case (Raises err)
    show ?thesis
    proof (cases "err = RateLimitError \<or> err = APIError")
      case True
      then show ?thesis using Raises tb slept_again by auto
    next
      case False
      then show ?thesis
        using Raises tb e by (intro exI [of _ ext] exI [of _ 0]) simp
    qed
  next
    case (Breaks ids)
    then show ?thesis
      using tb e by (intro exI [of _ ext] exI [of _ 0]) simp
  next
    case (FallsThrough ids)
    then show ?thesis using tb again by simp
  qed
qed

lemma snd_after_loop: "snd (snd (after_loop mdl m caller r)) = snd r"
  by (cases r; cases "fst r")
    (auto simp: after_loop_def split: sum.splits)

lemma fst_snd_after_loop: "fst (snd (after_loop mdl m caller r)) = caller"
  by (cases r; cases "fst r")
    (auto simp: after_loop_def split: sum.splits)

lemma generate_world:
  "\<exists>ext k. snd (snd (generate fuel api mk mdl inputs g kw w)) =
      w\<lparr>requests := requests w @ probe_request mdl # ext, slept := slept w @ replicate k 10\<rparr>"
proof -
  obtain gc caller where rs: "resolve_generation_config mk g kw = (gc, caller)"
    by (cases "resolve_generation_config mk g kw")
  obtain r w1 where ck: "check_chat_model api mdl w = (r, w1)"
    by (cases "check_chat_model api mdl w")
  have w1: "w1 = w\<lparr>requests := requests w @ [probe_request mdl]\<rparr>"
    using check_chat_model_world [of api mdl w] ck by simp
  show ?thesis
  proof (cases r)
    case (Inl e)
    then show ?thesis
      using rs ck w1 by (intro exI [of _ "[]"] exI [of _ 0]) (simp add: generate_def)
  next
    case (Inr c)
    obtain ext k where "snd (while_true fuel api mdl gc c (make_inputs_list mdl inputs) w1) =
        w1\<lparr>requests := requests w1 @ ext, slept := slept w1 @ replicate k 10\<rparr>"
      using while_true_world by blast
    then show ?thesis
      using rs ck w1 Inr
      by (intro exI [of _ ext] exI [of _ k]) (simp add: generate_def snd_after_loop)
  qed
qed

lemma generate_caller_config:
  "fst (snd (generate fuel api mk mdl inputs g kw w)) = snd (resolve_generation_config mk g kw)"
  by (cases "resolve_generation_config mk g kw"; cases "check_chat_model api mdl w")
    (auto simp: generate_def fst_snd_after_loop split: sum.splits)

subsection \<open>Classification of the remote model\<close>

lemma generate_classified:
  assumes "check_chat_model api mdl w = (Inr c, w1)"
  shows "generate fuel api mk mdl inputs g kw w =
           after_loop mdl (dim inputs = 2) (snd (resolve_generation_config mk g kw))
             (while_true fuel api mdl (fst (resolve_generation_config mk g kw)) c
                (make_inputs_list mdl inputs) w1)"
  using assms
  by (cases "resolve_generation_config mk g kw") (simp add: generate_def)

lemma generate_probe_raises:
  assumes "check_chat_model api mdl w = (Inl e, w1)"
  shows "generate fuel api mk mdl inputs g kw w =
           (Raised e, snd (resolve_generation_config mk g kw), w1)"
  using assms
  by (cases "resolve_generation_config mk g kw") (simp add: generate_def)

lemma example_generate_chat_eval:
  "fst (after_loop (example_model config_with_pad) True None
     (while_true 1 chat_backend (example_model config_with_pad) (example_GenerationConfig [])
        True (Nested [[5], [6, 7]])
        (empty_world\<lparr>requests := [probe_request (example_model config_with_pad)]\<rparr>)))
   = Returned (Tensor2 [[104, 105], [104, 105]])"
  by (simp add: after_loop_def try_body_def chat_completion_def example_sampling_args
      create_def chat_backend_def retokenize_eq example_model_fields example_tokenizer_fields
      example_encode strip_def isspace_def output_tensor_def pad_sequence_def padded_rows_def
      max_len_def OpenAITokenizer_decode_def Tensor_def float32_exact)

text \<open>
  C7. In the probe, an invalid-request error whose message contains the chat-model
  indicator makes the call go on as for a chat model; any other error of the probe leaves
  \<open>generate\<close> unchanged; an answered probe makes the call go on as for a completion
  model. Every call of \<open>generate\<close> starts with the probe: it is the first request the
  call adds to the log, whatever was classified before.
\<close>

theorem probe_classifies_every_call:
  "(\<forall>msg. api (length (requests w)) (probe_request mdl) = Inl (InvalidRequestError msg)
          \<and> str_in ''This is a chat model'' msg \<longrightarrow>
      generate fuel api mk mdl inputs g kw w =
        after_loop mdl (dim inputs = 2) (snd (resolve_generation_config mk g kw))
          (while_true fuel api mdl (fst (resolve_generation_config mk g kw)) True
             (make_inputs_list mdl inputs) (w\<lparr>requests := requests w @ [probe_request mdl]\<rparr>)))
   \<and> (\<forall>choices. api (length (requests w)) (probe_request mdl) = Inr choices \<longrightarrow>
      generate fuel api mk mdl inputs g kw w =
        after_loop mdl (dim inputs = 2) (snd (resolve_generation_config mk g kw))
          (while_true fuel api mdl (fst (resolve_generation_config mk g kw)) False
             (make_inputs_list mdl inputs) (w\<lparr>requests := requests w @ [probe_request mdl]\<rparr>)))
   \<and> (\<forall>e. api (length (requests w)) (probe_request mdl) = Inl e
          \<and> (\<forall>msg. e = InvalidRequestError msg \<longrightarrow> \<not> str_in ''This is a chat model'' msg) \<longrightarrow>
      generate fuel api mk mdl inputs g kw w =
        (Raised e, snd (resolve_generation_config mk g kw),
         w\<lparr>requests := requests w @ [probe_request mdl]\<rparr>))
   \<and> take (Suc (length (requests w))) (requests (snd (snd (generate fuel api mk mdl inputs g kw w))))
       = requests w @ [probe_request mdl]"
proof (intro conjI allI impI)
  fix msg
  assume a: "api (length (requests w)) (probe_request mdl) = Inl (InvalidRequestError msg)
          \<and> str_in ''This is a chat model'' msg"
  have "check_chat_model api mdl w =
      (Inr True, w\<lparr>requests := requests w @ [probe_request mdl]\<rparr>)"
    using a check_chat_model_chat [of api w mdl msg] by blast
  then show "generate fuel api mk mdl inputs g kw w =
        after_loop mdl (dim inputs = 2) (snd (resolve_generation_config mk g kw))
          (while_true fuel api mdl (fst (resolve_generation_config mk g kw)) True
             (make_inputs_list mdl inputs) (w\<lparr>requests := requests w @ [probe_request mdl]\<rparr>))"
    by (rule generate_classified)
next
  fix choices
  assume "api (length (requests w)) (probe_request mdl) = Inr choices"
  then have "check_chat_model api mdl w =
      (Inr False, w\<lparr>requests := requests w @ [probe_request mdl]\<rparr>)"
    by (rule check_chat_model_completion [of api w mdl choices])
  then show "generate fuel api mk mdl inputs g kw w =
        after_loop mdl (dim inputs = 2) (snd (resolve_generation_config mk g kw))
          (while_true fuel api mdl (fst (resolve_generation_config mk g kw)) False
             (make_inputs_list mdl inputs) (w\<lparr>requests := requests w @ [probe_request mdl]\<rparr>))"
    by (rule generate_classified)
next
  fix e
  assume a: "api (length (requests w)) (probe_request mdl) = Inl e
          \<and> (\<forall>msg. e = InvalidRequestError msg \<longrightarrow> \<not> str_in ''This is a chat model'' msg)"
  have "check_chat_model api mdl w =
      (Inl e, w\<lparr>requests := requests w @ [probe_request mdl]\<rparr>)"
    using a check_chat_model_raises [of api w mdl e] by blast
  then show "generate fuel api mk mdl inputs g kw w =
        (Raised e, snd (resolve_generation_config mk g kw),
         w\<lparr>requests := requests w @ [probe_request mdl]\<rparr>)"
    by (rule generate_probe_raises)
next
  obtain ext k where "snd (snd (generate fuel api mk mdl inputs g kw w)) =
      w\<lparr>requests := requests w @ probe_request mdl # ext, slept := slept w @ replicate k 10\<rparr>"
    using generate_world by blast
  then show "take (Suc (length (requests w)))
        (requests (snd (snd (generate fuel api mk mdl inputs g kw w))))
       = requests w @ [probe_request mdl]"
    by simp
qed


theorem probe_classifies_every_call_witness:
  "chat_backend 0 (probe_request (example_model config_with_pad))
     = Inl (InvalidRequestError chat_model_message)
   \<and> str_in ''This is a chat model'' chat_model_message
   \<and> fst (generate 1 chat_backend example_GenerationConfig (example_model config_with_pad)
        (Tensor2 [[5, 3], [6, 7]]) None [] empty_world)
       = Returned (Tensor2 [[104, 105], [104, 105]])
   \<and> completion_backend 0 (probe_request (example_model config_with_pad)) = Inr [''ab'', '' c'']
   \<and> fst (generate 1 completion_backend example_GenerationConfig (example_model config_with_pad)
        (Tensor2 [[5, 3], [6, 7]]) None [] empty_world)
       = Diverged
   \<and> rate_limited_backend 0 (probe_request (example_model config_with_pad)) = Inl RateLimitError
   \<and> generate 1 rate_limited_backend example_GenerationConfig (example_model config_with_pad)
        (Tensor2 [[5, 3], [6, 7]]) None [] empty_world
       = (Raised RateLimitError, None,
          \<lparr>requests = [probe_request (example_model config_with_pad)], slept = []\<rparr>)
   \<and> take 1 (requests (snd (snd
        (generate 1 chat_backend example_GenerationConfig (example_model config_with_pad)
           (Tensor2 [[5, 3], [6, 7]]) None [] empty_world))))
       = [probe_request (example_model config_with_pad)]"
proof -
  let ?M = "example_model config_with_pad"
  let ?T = "Tensor2 [[5, 3], [6, 7]]"
  have len: "length (requests empty_world) = 0"
    by (simp add: empty_world_def)
  have req: "requests empty_world = []"
    by (simp add: empty_world_def)
  have mk: "make_inputs_list ?M ?T = Nested [[5], [6, 7]]"
    by (simp add: make_inputs_list_def remove_padding_def example_model_fields
        config_with_pad_def)
  have h1: "chat_backend (length (requests empty_world)) (probe_request ?M)
              = Inl (InvalidRequestError chat_model_message)
            \<and> str_in ''This is a chat model'' chat_model_message"
    by (simp add: len chat_backend_def chat_model_message_str_in)
  have h2: "completion_backend (length (requests empty_world)) (probe_request ?M)
              = Inr [''ab'', '' c'']"
    by (simp add: completion_backend_def)
  have h3: "rate_limited_backend (length (requests empty_world)) (probe_request ?M)
              = Inl RateLimitError
            \<and> (\<forall>msg. RateLimitError = InvalidRequestError msg
                  \<longrightarrow> \<not> str_in ''This is a chat model'' msg)"
    by (simp add: rate_limited_backend_def)
  note t1 = probe_classifies_every_call [where api = chat_backend and w = empty_world
      and mdl = ?M and fuel = 1 and mk = example_GenerationConfig and inputs = ?T
      and g = None and kw = "[]"]
  note t2 = probe_classifies_every_call [where api = completion_backend and w = empty_world
      and mdl = ?M and fuel = 1 and mk = example_GenerationConfig and inputs = ?T
      and g = None and kw = "[]"]
  note t3 = probe_classifies_every_call [where api = rate_limited_backend and w = empty_world
      and mdl = ?M and fuel = 1 and mk = example_GenerationConfig and inputs = ?T
      and g = None and kw = "[]"]
  have g1: "generate 1 chat_backend example_GenerationConfig ?M ?T None [] empty_world =
      after_loop ?M (dim ?T = 2) (snd (resolve_generation_config example_GenerationConfig None []))
        (while_true 1 chat_backend ?M
           (fst (resolve_generation_config example_GenerationConfig None [])) True
           (make_inputs_list ?M ?T)
           (empty_world\<lparr>requests := requests empty_world @ [probe_request ?M]\<rparr>))"
    using t1 h1 by blast
  have c1: "fst (generate 1 chat_backend example_GenerationConfig ?M ?T None [] empty_world)
      = Returned (Tensor2 [[104, 105], [104, 105]])"
  proof -
    have "generate 1 chat_backend example_GenerationConfig ?M ?T None [] empty_world =
        after_loop ?M True None
          (while_true 1 chat_backend ?M (example_GenerationConfig []) True
             (Nested [[5], [6, 7]]) (empty_world\<lparr>requests := [probe_request ?M]\<rparr>))"
      unfolding g1 mk example_resolve_None req by simp
    then show ?thesis
      by (simp only: example_generate_chat_eval)
  qed
  have g2: "generate 1 completion_backend example_GenerationConfig ?M ?T None [] empty_world =
      after_loop ?M (dim ?T = 2) (snd (resolve_generation_config example_GenerationConfig None []))
        (while_true 1 completion_backend ?M
           (fst (resolve_generation_config example_GenerationConfig None [])) False
           (make_inputs_list ?M ?T)
           (empty_world\<lparr>requests := requests empty_world @ [probe_request ?M]\<rparr>))"
    using t2 h2 by blast
  have c2: "fst (generate 1 completion_backend example_GenerationConfig ?M ?T None [] empty_world)
      = Diverged"
    unfolding g2 example_resolve_None
    by (simp add: after_loop_def
        while_true_completion_diverges [OF example_sampling_args completion_backend_answers])
  have c3: "generate 1 rate_limited_backend example_GenerationConfig ?M ?T None [] empty_world
      = (Raised RateLimitError, snd (resolve_generation_config example_GenerationConfig None []),
         empty_world\<lparr>requests := requests empty_world @ [probe_request ?M]\<rparr>)"
    using t3 h3 by blast
  have c4: "take (Suc (length (requests empty_world)))
      (requests (snd (snd (generate 1 chat_backend example_GenerationConfig ?M ?T None []
         empty_world))))
      = requests empty_world @ [probe_request ?M]"
    using t1 by blast
  have c3': "generate 1 rate_limited_backend example_GenerationConfig ?M ?T None [] empty_world
      = (Raised RateLimitError, None, \<lparr>requests = [probe_request ?M], slept = []\<rparr>)"
    unfolding c3 example_resolve_None by (simp add: empty_world_def)
  have c4': "take 1 (requests (snd (snd (generate 1 chat_backend example_GenerationConfig ?M ?T
      None [] empty_world)))) = [probe_request ?M]"
    using c4 unfolding req by simp
  have h1': "chat_backend 0 (probe_request ?M) = Inl (InvalidRequestError chat_model_message)"
    using h1 unfolding len by blast
  have h2': "completion_backend 0 (probe_request ?M) = Inr [''ab'', '' c'']"
    using h2 unfolding len .
  have h3': "rate_limited_backend 0 (probe_request ?M) = Inl RateLimitError"
    using h3 unfolding len by blast
  show ?thesis
    using h1' chat_model_message_str_in c1 h2' c2 h3' c3' c4' by blast
qed


text \<open>
  Nothing of the classification is kept between two calls: on a remote side that refuses
  only its very first request, the first call of a model is classified as chat and the
  next call of the same model, in the world the first call left, as completion.
\<close>

lemma classification_not_cached:
  "fst (check_chat_model switching_backend mdl empty_world) = Inr True
   \<and> fst (check_chat_model switching_backend mdl
        (snd (snd (generate fuel switching_backend mk mdl inputs g kw empty_world))))
       = Inr False"
proof -
  let ?w1 = "snd (snd (generate fuel switching_backend mk mdl inputs g kw empty_world))"
  have "switching_backend (length (requests empty_world)) (probe_request mdl)
          = Inl (InvalidRequestError chat_model_message)"
    by (simp add: switching_backend_def empty_world_def)
  then have a: "fst (check_chat_model switching_backend mdl empty_world) = Inr True"
    using check_chat_model_chat [of switching_backend empty_world mdl chat_model_message]
      chat_model_message_str_in
    by simp
  obtain ext k where "?w1 = empty_world\<lparr>requests := requests empty_world @ probe_request mdl # ext,
      slept := slept empty_world @ replicate k 10\<rparr>"
    using generate_world by blast
  then have "length (requests ?w1) \<noteq> 0"
    by simp
  then have "switching_backend (length (requests ?w1)) (probe_request mdl) = Inr [''ok'']"
    by (simp add: switching_backend_def)
  then have b: "fst (check_chat_model switching_backend mdl ?w1) = Inr False"
    using check_chat_model_completion [of switching_backend ?w1 mdl "[''ok'']"] by simp
  show ?thesis using a b by blast
qed

subsection \<open>The generation configuration\<close>

lemma fold_setattr:
  "fold (\<lambda>(key, val) ob. setattr ob key val) kw obj = obj ++ map_of (rev kw)"
proof (induction kw arbitrary: obj)
  case Nil
  show ?case by simp
next
  case (Cons p kw)
  obtain key val where p: "p = (key, val)" by (cases p)
  have m: "obj(key \<mapsto> val) ++ map_of (rev kw) = obj ++ (map_of (rev kw @ [(key, val)]))"
    by (simp add: map_add_upd_left fun_eq_iff map_add_def split: option.splits)
  have "fold (\<lambda>(key, val) ob. setattr ob key val) (p # kw) obj
          = fold (\<lambda>(key, val) ob. setattr ob key val) kw (setattr obj key val)"
    by (simp add: p)
  also have "\<dots> = setattr obj key val ++ map_of (rev kw)"
    by (rule Cons.IH)
  also have "\<dots> = obj ++ map_of (rev (p # kw))"
    using m by (simp add: setattr_def p)
  finally show ?case .
qed

lemma fold_setattr_overridden:
  assumes "distinct (map fst kw)" and "(key, val) \<in> set kw"
  shows "fold (\<lambda>(key, val) ob. setattr ob key val) kw obj key = Some val"
proof -
  have "distinct (map fst (rev kw))" using assms(1) by (simp add: rev_map [symmetric])
  moreover have "(key, val) \<in> set (rev kw)" using assms(2) by simp
  ultimately have "map_of (rev kw) key = Some val" by (rule map_of_is_SomeI)
  then show ?thesis by (simp add: fold_setattr)
qed

lemma fold_setattr_other:
  assumes "key \<notin> fst ` set kw"
  shows "fold (\<lambda>(key, val) ob. setattr ob key val) kw obj key = obj key"
proof -
  have "map_of (rev kw) key = None"
    using assms by (simp add: map_of_eq_None_iff)
  then show ?thesis by (simp add: fold_setattr map_add_def)
qed

lemma resolve_None_like_fresh:
  "resolve_generation_config mk None kw = (mk kw, None)"
  "resolve_generation_config mk (Some (mk kw)) [] = (mk kw, Some (mk kw))"
  by (simp_all add: resolve_generation_config_def Let_def)

text \<open>
  C9. When \<open>generate\<close> is called with a generation configuration object and keyword
  overrides, the overrides are stored into that object one attribute after the other:
  after the call, whatever its outcome, the caller's object is the old one with every
  override set (and nothing else changed). When no configuration is given, no object of
  the caller exists and the call works with \<open>GenerationConfig(**kwargs)\<close>: it behaves
  as a call that is given that fresh object and no overrides.
\<close>

theorem overrides_mutate_given_config:
  "fst (snd (generate fuel api mk mdl inputs (Some obj) kw w))
     = Some (fold (\<lambda>(key, val) ob. setattr ob key val) kw obj)
   \<and> (distinct (map fst kw) \<longrightarrow>
        (\<forall>(key, val) \<in> set kw.
           getattr (fold (\<lambda>(key, val) ob. setattr ob key val) kw obj) key = Inr val))
   \<and> (\<forall>key. key \<notin> fst ` set kw \<longrightarrow>
          fold (\<lambda>(key, val) ob. setattr ob key val) kw obj key = obj key)
   \<and> fst (snd (generate fuel api mk mdl inputs None kw w)) = None
   \<and> fst (generate fuel api mk mdl inputs None kw w)
       = fst (generate fuel api mk mdl inputs (Some (mk kw)) [] w)
   \<and> snd (snd (generate fuel api mk mdl inputs None kw w))
       = snd (snd (generate fuel api mk mdl inputs (Some (mk kw)) [] w))"
proof (intro conjI)
  show "fst (snd (generate fuel api mk mdl inputs (Some obj) kw w))
     = Some (fold (\<lambda>(key, val) ob. setattr ob key val) kw obj)"
    by (simp add: generate_caller_config resolve_generation_config_def Let_def)
  show "distinct (map fst kw) \<longrightarrow>
        (\<forall>(key, val) \<in> set kw.
           getattr (fold (\<lambda>(key, val) ob. setattr ob key val) kw obj) key = Inr val)"
    using fold_setattr_overridden [of kw _ _ obj] by (auto simp: getattr_def)
  show "\<forall>key. key \<notin> fst ` set kw \<longrightarrow>
          fold (\<lambda>(key, val) ob. setattr ob key val) kw obj key = obj key"
    using fold_setattr_other by blast
  show "fst (snd (generate fuel api mk mdl inputs None kw w)) = None"
    by (simp add: generate_caller_config resolve_generation_config_def Let_def)
  show "fst (generate fuel api mk mdl inputs None kw w)
       = fst (generate fuel api mk mdl inputs (Some (mk kw)) [] w)"
    by (cases "check_chat_model api mdl w"; cases "fst (check_chat_model api mdl w)")
      (simp_all add: generate_def resolve_None_like_fresh after_loop_def
        split: prod.splits outcome.splits sum.splits)
  show "snd (snd (generate fuel api mk mdl inputs None kw w))
       = snd (snd (generate fuel api mk mdl inputs (Some (mk kw)) [] w))"
    by (cases "check_chat_model api mdl w"; cases "fst (check_chat_model api mdl w)")
      (simp_all add: generate_def resolve_None_like_fresh snd_after_loop)
qed

theorem overrides_mutate_given_config_witness:
  "distinct (map fst [(''max_length'', IntV 5), (''top_p'', FloatV (1 / 2))])
   \<and> fst (snd (generate 1 chat_backend example_GenerationConfig (example_model config_with_pad)
        (Tensor2 [[5, 3], [6, 7]]) (Some default_generation_config)
        [(''max_length'', IntV 5), (''top_p'', FloatV (1 / 2))] empty_world))
       = Some (default_generation_config(''max_length'' \<mapsto> IntV 5, ''top_p'' \<mapsto> FloatV (1 / 2)))
   \<and> getattr (default_generation_config(''max_length'' \<mapsto> IntV 5, ''top_p'' \<mapsto> FloatV (1 / 2)))
        ''max_length'' = Inr (IntV 5)
   \<and> getattr (default_generation_config(''max_length'' \<mapsto> IntV 5, ''top_p'' \<mapsto> FloatV (1 / 2)))
        ''temperature'' = Inr (FloatV 1)
   \<and> fst (snd (generate 1 chat_backend example_GenerationConfig (example_model config_with_pad)
        (Tensor2 [[5, 3], [6, 7]]) None
        [(''max_length'', IntV 5), (''top_p'', FloatV (1 / 2))] empty_world)) = None"
proof -
  let ?kw = "[(''max_length'', IntV 5), (''top_p'', FloatV (1 / 2))]"
  let ?obj' = "default_generation_config(''max_length'' \<mapsto> IntV 5, ''top_p'' \<mapsto> FloatV (1 / 2))"
  note t = overrides_mutate_given_config [where fuel = 1 and api = chat_backend
      and mk = example_GenerationConfig and mdl = "example_model config_with_pad"
      and inputs = "Tensor2 [[5, 3], [6, 7]]" and obj = default_generation_config
      and kw = ?kw and w = empty_world]
  have f: "fold (\<lambda>(key, val) ob. setattr ob key val) ?kw default_generation_config = ?obj'"
    by (simp add: setattr_def)
  have d: "distinct (map fst ?kw)" by simp
  have a: "fst (snd (generate 1 chat_backend example_GenerationConfig
      (example_model config_with_pad) (Tensor2 [[5, 3], [6, 7]]) (Some default_generation_config)
      ?kw empty_world)) = Some ?obj'"
    using t unfolding f by blast
  have "\<forall>(key, val) \<in> set ?kw. getattr ?obj' key = Inr val"
    using t d unfolding f by blast
  then have b: "getattr ?obj' ''max_length'' = Inr (IntV 5)"
    by simp
  have "''temperature'' \<notin> fst ` set ?kw" by simp
  then have "?obj' ''temperature'' = default_generation_config ''temperature''"
    using t unfolding f by blast
  then have c: "getattr ?obj' ''temperature'' = Inr (FloatV 1)"
    by (simp add: getattr_def default_generation_config_def)
  have e: "fst (snd (generate 1 chat_backend example_GenerationConfig
      (example_model config_with_pad) (Tensor2 [[5, 3], [6, 7]]) None ?kw empty_world)) = None"
    using t by blast
  show ?thesis using d a b c e by blast
qed

subsection \<open>The chat branch\<close>




subsection \<open>Retrying\<close>















end
